theory Spec2Isabelle
  imports Main "HOL-Library.Word"
begin

section \<open>The Info.plist updater: \<^verbatim>\<open>ios/update_info_plist.py\<close>\<close>

text \<open>
  The script reads the property list at a fixed path, removes one fixed top-level key
  when it is there, and writes the document back to the same path. It returns a
  Boolean and tells the branches apart on standard output only.

  What the script computes itself (the existence test, the \<open>try\<close> block, the membership
  test, the deletion, the order of the calls, the handler) is embedded statement by
  statement. What it calls in Python's library (\<open>os.path.exists\<close>, \<open>open\<close>,
  \<open>plistlib.load\<close>, \<open>plistlib.dump\<close>, \<open>print\<close>) is the environment: it is modelled
  on a file system whose file contents are described by what \<open>plistlib\<close> makes of
  them, not by their bytes.

  The library is taken at its documented contract. Standard output accepts every line
  printed. A file that \<open>plistlib.dump\<close> has written without raising is read back by
  \<open>plistlib.load\<close> as the value that was written: the model does not follow what the
  XML writer normalises on the way (carriage returns in strings, fractions of a second
  in dates, tuples), nor the two code points U+FFFE and U+FFFF, which the writer emits
  and the parser then refuses.
\<close>

subsection \<open>Values of a property list\<close>

text \<open>
  The Python objects \<open>plistlib.load\<close> returns: \<open>str\<close>, \<open>int\<close>, \<open>bool\<close>, \<open>float\<close>
  (its 64 bits), \<open>bytes\<close>, \<open>datetime\<close> (microseconds from an epoch), \<open>plistlib.UID\<close>,
  \<open>list\<close> and \<open>dict\<close>. Strings are UTF-8 byte lists. A dictionary is an association
  list with string keys, as the format requires; the program never depends on the order
  of its entries (it tests membership, deletes one key, and \<open>plistlib.dump\<close> sorts the
  keys).
\<close>

datatype pvalue =
    PStr string
  | PInt int
  | PBool bool
  | PReal "64 word"
  | PData string
  | PDate int
  | PUid nat
  | PArray "pvalue list"
  | PDict "(string \<times> pvalue) list"

datatype plist_fmt = FMT_XML | FMT_BINARY

subsection \<open>Files\<close>

text \<open>
  The content of a file is one of:
  \<^item> \<open>Plist fmt v\<close>: bytes that \<open>plistlib.load\<close> detects as format \<open>fmt\<close> and parses
    to the value \<open>v\<close>;
  \<^item> \<open>Partial v\<close>: what the XML writer had written of \<open>v\<close> when it raised (the header
    and the elements before the offending one, never the closing tag);
  \<^item> \<open>NotPlist bs\<close>: any other bytes \<open>bs\<close>; the empty file is \<open>NotPlist []\<close>.
\<close>

datatype content = Plist plist_fmt pvalue | Partial pvalue | NotPlist string

text \<open>A path names nothing, a directory, or a regular file with its read and write
  permission for the user running the script.\<close>

datatype node = File bool bool content | Dir

type_synonym path = string

subsection \<open>Exceptions, output and the record of calls\<close>

datatype py_exception =
    FileNotFoundError
  | IsADirectoryError
  | PermissionError
  | InvalidFileException
  | ExpatError
  | TypeError
  | KeyError
  | OverflowError
  | ValueError

text \<open>A printed line is an f-string: literal text and interpolated exceptions
  (\<open>{e}\<close>), whose text \<open>str(e)\<close> is left to Python.\<close>

datatype frag = Lit string | StrOf py_exception

type_synonym line = "frag list"

definition render :: "(py_exception \<Rightarrow> string) \<Rightarrow> line \<Rightarrow> string" where
  "render str l = concat (map (\<lambda>x. case x of Lit s \<Rightarrow> s | StrOf e \<Rightarrow> str e) l)"

text \<open>Every library call the script makes is recorded, in order, whether it succeeds
  or raises.\<close>

datatype event =
    Exists path
  | OpenRb path
  | Load
  | OpenWb path
  | Dump pvalue
  | Print line

record world =
  files :: "path \<Rightarrow> node option"
  trace :: "event list"

definition log :: "event \<Rightarrow> world \<Rightarrow> world" where
  "log ev w = w\<lparr>trace := trace w @ [ev]\<rparr>"

subsection \<open>Statements that may raise\<close>

type_synonym 'a io = "world \<Rightarrow> (py_exception + 'a) \<times> world"

definition returnE :: "'a \<Rightarrow> 'a io" where
  "returnE x = (\<lambda>w. (Inr x, w))"

definition bindE :: "'a io \<Rightarrow> ('a \<Rightarrow> 'b io) \<Rightarrow> 'b io" where
  "bindE m k = (\<lambda>w. case m w of (Inl e, w') \<Rightarrow> (Inl e, w') | (Inr x, w') \<Rightarrow> k x w')"

definition lift :: "py_exception + 'a \<Rightarrow> 'a io" where
  "lift r = (\<lambda>w. (r, w))"

text \<open>\<open>try: body except Exception as e: handler\<close>. Every exception of the model is a
  subclass of \<open>Exception\<close>.\<close>

definition try_except :: "'a io \<Rightarrow> (py_exception \<Rightarrow> 'a io) \<Rightarrow> 'a io" where
  "try_except body handler =
     (\<lambda>w. case body w of (Inl e, w') \<Rightarrow> handler e w' | (Inr x, w') \<Rightarrow> (Inr x, w'))"

subsection \<open>The library calls\<close>

definition print :: "line \<Rightarrow> unit io" where
  "print l = (\<lambda>w. (Inr (), log (Print l) w))"

text \<open>\<open>os.path.exists\<close>: true for a file and for a directory; it never raises.\<close>

definition os_path_exists :: "path \<Rightarrow> bool io" where
  "os_path_exists p = (\<lambda>w. (Inr (files w p \<noteq> None), log (Exists p) w))"

text \<open>\<open>open(p, 'rb')\<close>; the handle stands for the content that will be read.\<close>

definition open_rb :: "path \<Rightarrow> content io" where
  "open_rb p = (\<lambda>w.
     (case files w p of
        None \<Rightarrow> Inl FileNotFoundError
      | Some Dir \<Rightarrow> Inl IsADirectoryError
      | Some (File r wr c) \<Rightarrow> if r then Inr c else Inl PermissionError,
      log (OpenRb p) w))"

text \<open>\<open>plistlib.load(f)\<close> with no \<open>fmt\<close>: the format is detected and then forgotten,
  only the value is returned.\<close>

definition plistlib_load :: "content \<Rightarrow> pvalue io" where
  "plistlib_load c = (\<lambda>w.
     (case c of
        Plist fmt v \<Rightarrow> Inr v
      | Partial v \<Rightarrow> Inl ExpatError
      | NotPlist bs \<Rightarrow> Inl InvalidFileException,
      log Load w))"

text \<open>\<open>open(p, 'wb')\<close>: an existing writable file is truncated at once; a missing one
  is created empty.\<close>

definition open_wb :: "path \<Rightarrow> unit io" where
  "open_wb p = (\<lambda>w.
     (case files w p of
        None \<Rightarrow> (Inr (), (log (OpenWb p) w)\<lparr>files := (files w)(p \<mapsto> File True True (NotPlist []))\<rparr>)
      | Some Dir \<Rightarrow> (Inl IsADirectoryError, log (OpenWb p) w)
      | Some (File r wr c) \<Rightarrow>
          if wr then (Inr (), (log (OpenWb p) w)\<lparr>files := (files w)(p \<mapsto> File r wr (NotPlist []))\<rparr>)
          else (Inl PermissionError, log (OpenWb p) w)))"

text \<open>The checks of \<open>plistlib\<close>'s XML writer: it refuses the control characters
  other than tab, newline and carriage return in a string or a key (\<open>ValueError\<close>), an
  integer outside \<open>-2^63 \<dots> 2^64 - 1\<close> (\<open>OverflowError\<close>) and a \<open>UID\<close>
  (\<open>TypeError\<close>). The parsers are more lenient: the XML parser reads an integer element
  of any size, the binary parser reads \<open>UID\<close> values and any string.\<close>

definition control_char :: "char \<Rightarrow> bool" where
  "control_char c = ((of_char c :: nat) < 32 \<and> (of_char c :: nat) \<notin> {9, 10, 13})"

fun first_error :: "py_exception option list \<Rightarrow> py_exception option" where
  "first_error [] = None"
| "first_error (None # es) = first_error es"
| "first_error (Some e # es) = Some e"

fun xml_error :: "pvalue \<Rightarrow> py_exception option" where
  "xml_error (PStr s) = (if list_ex control_char s then Some ValueError else None)"
| "xml_error (PInt i) = (if - (2 ^ 63) \<le> i \<and> i < 2 ^ 64 then None else Some OverflowError)"
| "xml_error (PBool b) = None"
| "xml_error (PReal x) = None"
| "xml_error (PData bs) = None"
| "xml_error (PDate t) = None"
| "xml_error (PUid n) = Some TypeError"
| "xml_error (PArray xs) = first_error (map xml_error xs)"
| "xml_error (PDict kvs) =
     first_error (map (\<lambda>kv. if list_ex control_char (fst kv) then Some ValueError
                              else xml_error (snd kv)) kvs)"

definition set_content :: "path \<Rightarrow> content \<Rightarrow> world \<Rightarrow> world" where
  "set_content p c w =
     (case files w p of
        Some (File r wr old) \<Rightarrow> w\<lparr>files := (files w)(p \<mapsto> File r wr c)\<rparr>
      | _ \<Rightarrow> w)"

text \<open>\<open>plistlib.dump(value, f)\<close> into the file opened at \<open>p\<close>. The format argument is
  not given, so it is \<open>plistlib\<close>'s default, the XML format. When the writer raises, the
  \<open>with\<close> statement closes the file on what was written so far.\<close>

definition plistlib_dump :: "pvalue \<Rightarrow> path \<Rightarrow> unit io" where
  "plistlib_dump v p = (\<lambda>w.
     (case xml_error v of
        None \<Rightarrow> (Inr (), set_content p (Plist FMT_XML v) (log (Dump v) w))
      | Some e \<Rightarrow> (Inl e, set_content p (Partial v) (log (Dump v) w))))"

subsection \<open>The operators \<open>in\<close> and \<open>del\<close> on a loaded value\<close>

fun is_substring :: "string \<Rightarrow> string \<Rightarrow> bool" where
  "is_substring xs [] = (xs = [])"
| "is_substring xs (y # ys) = (take (length xs) (y # ys) = xs \<or> is_substring xs ys)"

definition dict_has :: "string \<Rightarrow> (string \<times> pvalue) list \<Rightarrow> bool" where
  "dict_has k kvs = (k \<in> set (map fst kvs))"

definition dict_del :: "string \<Rightarrow> (string \<times> pvalue) list \<Rightarrow> (string \<times> pvalue) list" where
  "dict_del k kvs = filter (\<lambda>kv. fst kv \<noteq> k) kvs"

text \<open>\<open>k in v\<close>: a key of a dictionary, an element of a list, a substring of a string;
  the other types are not containers and raise \<open>TypeError\<close>.\<close>

fun contains :: "string \<Rightarrow> pvalue \<Rightarrow> py_exception + bool" where
  "contains k (PDict kvs) = Inr (dict_has k kvs)"
| "contains k (PArray xs) = Inr (PStr k \<in> set xs)"
| "contains k (PStr s) = Inr (is_substring k s)"
| "contains k v = Inl TypeError"

text \<open>\<open>del v[k]\<close> with a string \<open>k\<close>: only a dictionary supports it.\<close>

fun delitem :: "string \<Rightarrow> pvalue \<Rightarrow> py_exception + pvalue" where
  "delitem k (PDict kvs) = (if dict_has k kvs then Inr (PDict (dict_del k kvs)) else Inl KeyError)"
| "delitem k v = Inl TypeError"

subsection \<open>The script\<close>

definition plist_path :: path where
  "plist_path = ''Silento/Info.plist''"

definition KEY :: string where
  "KEY = ''UIApplicationSceneManifest''"

definition not_found_line :: line where
  "not_found_line = [Lit (''Error: '' @ plist_path @ '' not found'')]"

definition removed_line :: line where
  "removed_line = [Lit (CHR 0xE2 # CHR 0x9C # CHR 0x85 # '' Removed UIApplicationSceneManifest'')]"

definition already_line :: line where
  "already_line = [Lit (CHR 0xE2 # CHR 0x84 # CHR 0xB9 # CHR 0xEF # CHR 0xB8 # CHR 0x8F #
     ''  UIApplicationSceneManifest not found (already removed)'')]"

definition success_line :: line where
  "success_line = [Lit (CHR 0xE2 # CHR 0x9C # CHR 0x85 # '' Successfully updated '' @ plist_path)]"

definition error_line :: "py_exception \<Rightarrow> line" where
  "error_line e = [Lit (CHR 0xE2 # CHR 0x9D # CHR 0x8C # '' Error updating plist: ''), StrOf e]"


text \<open>The three blocks of the \<open>try\<close> suite, as the source's comments divide it:
  read the plist, remove the key if it exists, write back the plist.\<close>

definition read_plist :: "pvalue io" where
  "read_plist =
     bindE (open_rb plist_path) (\<lambda>f.
     plistlib_load f)"

definition remove_if_present :: "pvalue \<Rightarrow> pvalue io" where
  "remove_if_present plist_data =
     bindE (lift (contains KEY plist_data)) (\<lambda>present.
     if present
     then bindE (lift (delitem KEY plist_data)) (\<lambda>plist_data.
          bindE (print removed_line) (\<lambda>_.
          returnE plist_data))
     else bindE (print already_line) (\<lambda>_.
          returnE plist_data))"

definition write_plist :: "pvalue \<Rightarrow> unit io" where
  "write_plist plist_data =
     bindE (open_wb plist_path) (\<lambda>_.
     plistlib_dump plist_data plist_path)"

definition update_body :: "bool io" where
  "update_body =
     bindE read_plist (\<lambda>plist_data.
     bindE (remove_if_present plist_data) (\<lambda>plist_data.
     bindE (write_plist plist_data) (\<lambda>_.
     bindE (print success_line) (\<lambda>_.
     returnE True))))"

text \<open>The \<open>except Exception as e\<close> clause.\<close>

definition update_handler :: "py_exception \<Rightarrow> bool io" where
  "update_handler e = bindE (print (error_line e)) (\<lambda>_. returnE False)"

definition update_info_plist :: "bool io" where
  "update_info_plist =
     bindE (os_path_exists plist_path) (\<lambda>found.
       if \<not> found
       then bindE (print not_found_line) (\<lambda>_. returnE False)
       else try_except update_body update_handler)"


text \<open>The calls one run of the operation adds to the record.\<close>

definition events_of :: "world \<Rightarrow> event list" where
  "events_of w = drop (length (trace w)) (trace (snd (update_info_plist w)))"

text \<open>The bytes of a file are a property list when \<open>plistlib.load\<close> accepts them.\<close>

definition is_plist :: "content \<Rightarrow> bool" where
  "is_plist c = (case c of Plist fmt v \<Rightarrow> True | _ \<Rightarrow> False)"

subsection \<open>Example file systems\<close>

text \<open>The document of the specification's scenario: the scene manifest and one other
  key.\<close>

definition doc_manifest :: "(string \<times> pvalue) list" where
  "doc_manifest =
     [(KEY, PDict [(''UIApplicationSupportsMultipleScenes'', PBool False)]),
      (''OtherKey'', PStr ''value'')]"

definition doc_clean :: "(string \<times> pvalue) list" where
  "doc_clean = [(''OtherKey'', PStr ''value'')]"

definition world_with :: "node \<Rightarrow> world" where
  "world_with n = \<lparr>files = [plist_path \<mapsto> n], trace = []\<rparr>"

definition w_manifest :: world where
  "w_manifest = world_with (File True True (Plist FMT_XML (PDict doc_manifest)))"

definition w_clean :: world where
  "w_clean = world_with (File True True (Plist FMT_XML (PDict doc_clean)))"

definition w_binary :: world where
  "w_binary = world_with (File True True (Plist FMT_BINARY (PDict doc_manifest)))"

definition w_missing :: world where
  "w_missing = \<lparr>files = Map.empty, trace = []\<rparr>"

definition w_garbage :: world where
  "w_garbage = world_with (File True True (NotPlist ''not a plist''))"

text \<open>An XML property list with an integer element of \<open>2^64\<close>: the parser reads it,
  the writer refuses it.\<close>

definition w_overflow :: world where
  "w_overflow = world_with (File True True
     (Plist FMT_XML (PDict [(KEY, PDict []), (''n'', PInt (2 ^ 64))])))"

definition other_path :: path where
  "other_path = ''Other/Info.plist''"

definition w_other :: world where
  "w_other = \<lparr>files = [other_path \<mapsto> File True True (Plist FMT_XML (PDict doc_manifest))],
     trace = []\<rparr>"

section \<open>What a run does, path by path\<close>

lemmas io_defs = returnE_def bindE_def lift_def try_except_def print_def os_path_exists_def
  open_rb_def plistlib_load_def open_wb_def plistlib_dump_def set_content_def log_def

lemmas script_defs = update_info_plist_def update_body_def update_handler_def
  read_plist_def remove_if_present_def write_plist_def

lemma run_not_found:
  "files w plist_path = None \<Longrightarrow>
   update_info_plist w = (Inr False, w\<lparr>trace := trace w @ [Exists plist_path, Print not_found_line]\<rparr>)"
  by (simp add: script_defs io_defs)

lemma run_dir:
  "files w plist_path = Some Dir \<Longrightarrow>
   update_info_plist w = (Inr False, w\<lparr>trace := trace w @
      [Exists plist_path, OpenRb plist_path, Print (error_line IsADirectoryError)]\<rparr>)"
  by (simp add: script_defs io_defs)

lemma run_unreadable:
  "files w plist_path = Some (File False wr c) \<Longrightarrow>
   update_info_plist w = (Inr False, w\<lparr>trace := trace w @
      [Exists plist_path, OpenRb plist_path, Print (error_line PermissionError)]\<rparr>)"
  by (simp add: script_defs io_defs)

lemma run_unparsable:
  "files w plist_path = Some (File True wr c) \<Longrightarrow> \<not> is_plist c \<Longrightarrow>
   update_info_plist w = (Inr False, w\<lparr>trace := trace w @
      [Exists plist_path, OpenRb plist_path, Load,
       Print (error_line (case c of Partial v \<Rightarrow> ExpatError | _ \<Rightarrow> InvalidFileException))]\<rparr>)"
  by (cases c) (simp_all add: is_plist_def script_defs io_defs)

lemma run_inspect_error:
  "files w plist_path = Some (File True wr (Plist f v)) \<Longrightarrow>
   contains KEY v = Inl e \<or> contains KEY v = Inr True \<and> delitem KEY v = Inl e \<Longrightarrow>
   update_info_plist w = (Inr False, w\<lparr>trace := trace w @
      [Exists plist_path, OpenRb plist_path, Load, Print (error_line e)]\<rparr>)"
  by (auto simp add: script_defs io_defs)

lemma run_unwritable:
  "files w plist_path = Some (File True False (Plist f v)) \<Longrightarrow>
   contains KEY v = Inr b \<Longrightarrow> (if b then delitem KEY v = Inr v' else v' = v) \<Longrightarrow>
   update_info_plist w = (Inr False, w\<lparr>trace := trace w @
      [Exists plist_path, OpenRb plist_path, Load,
       Print (if b then removed_line else already_line),
       OpenWb plist_path, Print (error_line PermissionError)]\<rparr>)"
  by (cases b) (simp_all add: script_defs io_defs)

lemma run_dump_error:
  "files w plist_path = Some (File True True (Plist f v)) \<Longrightarrow>
   contains KEY v = Inr b \<Longrightarrow> (if b then delitem KEY v = Inr v' else v' = v) \<Longrightarrow>
   xml_error v' = Some e \<Longrightarrow>
   update_info_plist w = (Inr False,
     w\<lparr>files := (files w)(plist_path \<mapsto> File True True (Partial v')),
       trace := trace w @
      [Exists plist_path, OpenRb plist_path, Load,
       Print (if b then removed_line else already_line),
       OpenWb plist_path, Dump v', Print (error_line e)]\<rparr>)"
  by (cases b) (simp_all add: script_defs io_defs)

lemma run_success:
  "files w plist_path = Some (File True True (Plist f v)) \<Longrightarrow>
   contains KEY v = Inr b \<Longrightarrow> (if b then delitem KEY v = Inr v' else v' = v) \<Longrightarrow>
   xml_error v' = None \<Longrightarrow>
   update_info_plist w = (Inr True,
     w\<lparr>files := (files w)(plist_path \<mapsto> File True True (Plist FMT_XML v')),
       trace := trace w @
      [Exists plist_path, OpenRb plist_path, Load,
       Print (if b then removed_line else already_line),
       OpenWb plist_path, Dump v', Print success_line]\<rparr>)"
  by (cases b) (simp_all add: script_defs io_defs)

lemma inspect_cases:
  obtains (raises) e where "contains KEY v = Inl e \<or> contains KEY v = Inr True \<and> delitem KEY v = Inl e"
  | (passes) b v' where "contains KEY v = Inr b" "if b then delitem KEY v = Inr v' else v' = v"
proof (cases "contains KEY v")
  case (Inl e)
  then show ?thesis using raises by blast
next
  case (Inr b)
  show ?thesis
  proof (cases b)
    case False
    with Inr show ?thesis using passes[of False v] by simp
  next
    case True
    show ?thesis
    proof (cases "delitem KEY v")
      case (Inl e)
      with \<open>contains KEY v = Inr b\<close> True show ?thesis using raises[of e] by simp
    next
      case (Inr v')
      with \<open>contains KEY v = Inr b\<close> True show ?thesis using passes[of True v'] by simp
    qed
  qed
qed

lemma run_cases:
  obtains
    (not_found) "files w plist_path = None"
  | (dir) "files w plist_path = Some Dir"
  | (unreadable) wr c where "files w plist_path = Some (File False wr c)"
  | (unparsable) wr c where "files w plist_path = Some (File True wr c)" "\<not> is_plist c"
  | (inspect_error) wr f v e where "files w plist_path = Some (File True wr (Plist f v))"
      "contains KEY v = Inl e \<or> contains KEY v = Inr True \<and> delitem KEY v = Inl e"
  | (unwritable) f v b v' where "files w plist_path = Some (File True False (Plist f v))"
      "contains KEY v = Inr b" "if b then delitem KEY v = Inr v' else v' = v"
  | (dump_error) f v b v' e where "files w plist_path = Some (File True True (Plist f v))"
      "contains KEY v = Inr b" "if b then delitem KEY v = Inr v' else v' = v"
      "xml_error v' = Some e"
  | (success) f v b v' where "files w plist_path = Some (File True True (Plist f v))"
      "contains KEY v = Inr b" "if b then delitem KEY v = Inr v' else v' = v"
      "xml_error v' = None"
proof (cases "files w plist_path")
  case None
  then show ?thesis by (rule not_found)
next
  case (Some n)
  show ?thesis
  proof (cases n)
    case Dir
    with Some show ?thesis using dir by simp
  next
    case (File r wr c)
    show ?thesis
    proof (cases r)
      case False
      with Some File show ?thesis using unreadable by simp
    next
      case True
      note r = True
      show ?thesis
      proof (cases c)
        case (Partial v)
        with Some File r show ?thesis using unparsable[of wr c] by (simp add: is_plist_def)
      next
        case (NotPlist bs)
        with Some File r show ?thesis using unparsable[of wr c] by (simp add: is_plist_def)
      next
        case (Plist f v)
        with Some File r have here: "files w plist_path = Some (File True wr (Plist f v))"
          by simp
        show ?thesis
        proof (cases v rule: inspect_cases)
          case (raises e)
          with here show ?thesis using inspect_error by blast
        next
          case (passes b v')
          show ?thesis
          proof (cases wr)
            case False
            with here passes show ?thesis using unwritable[of f v b v'] by simp
          next
            case True
            with here have full: "files w plist_path = Some (File True True (Plist f v))"
              by simp
            show ?thesis
            proof (cases "xml_error v'")
              case None
              with full passes show ?thesis using success[of f v b v'] by simp
            next
              case (Some e)
              with full passes show ?thesis using dump_error[of f v b v' e] by simp
            qed
          qed
        qed
      qed
    qed
  qed
qed

lemma events_ofI:
  "trace (snd (update_info_plist w)) = trace w @ es \<Longrightarrow> events_of w = es"
  by (simp add: events_of_def)

lemmas example_defs = world_with_def w_manifest_def w_clean_def w_binary_def w_missing_def
  w_garbage_def w_overflow_def w_other_def doc_manifest_def doc_clean_def other_path_def

subsection \<open>Deleting a key from a dictionary\<close>






subsection \<open>The paths of a run\<close>



text \<open>The paths of a run, each with the hypotheses that select it and the result it
  computes; a directory and an unreadable file both fail in \<open>open\<close>.\<close>

lemma run_result_cases:
  obtains
    (not_found) "files w plist_path = None"
      "update_info_plist w =
         (Inr False, w\<lparr>trace := trace w @ [Exists plist_path, Print not_found_line]\<rparr>)"
  | (read_error) e where "files w plist_path \<noteq> None"
      "update_info_plist w = (Inr False, w\<lparr>trace := trace w @
         [Exists plist_path, OpenRb plist_path, Print (error_line e)]\<rparr>)"
  | (parse_error) wr c e where "files w plist_path = Some (File True wr c)" "\<not> is_plist c"
      "e = InvalidFileException \<or> e = ExpatError"
      "update_info_plist w = (Inr False, w\<lparr>trace := trace w @
         [Exists plist_path, OpenRb plist_path, Load, Print (error_line e)]\<rparr>)"
  | (inspect_error) wr f v e where "files w plist_path = Some (File True wr (Plist f v))"
      "update_info_plist w = (Inr False, w\<lparr>trace := trace w @
         [Exists plist_path, OpenRb plist_path, Load, Print (error_line e)]\<rparr>)"
  | (unwritable) f v b where "files w plist_path = Some (File True False (Plist f v))"
      "update_info_plist w = (Inr False, w\<lparr>trace := trace w @
         [Exists plist_path, OpenRb plist_path, Load,
          Print (if b then removed_line else already_line),
          OpenWb plist_path, Print (error_line PermissionError)]\<rparr>)"
  | (dump_error) f v b v' e where "files w plist_path = Some (File True True (Plist f v))"
      "contains KEY v = Inr b" "if b then delitem KEY v = Inr v' else v' = v"
      "xml_error v' = Some e"
      "update_info_plist w = (Inr False,
         w\<lparr>files := (files w)(plist_path \<mapsto> File True True (Partial v')),
           trace := trace w @
         [Exists plist_path, OpenRb plist_path, Load,
          Print (if b then removed_line else already_line),
          OpenWb plist_path, Dump v', Print (error_line e)]\<rparr>)"
  | (success) f v b v' where "files w plist_path = Some (File True True (Plist f v))"
      "contains KEY v = Inr b" "if b then delitem KEY v = Inr v' else v' = v"
      "xml_error v' = None"
      "update_info_plist w = (Inr True,
         w\<lparr>files := (files w)(plist_path \<mapsto> File True True (Plist FMT_XML v')),
           trace := trace w @
         [Exists plist_path, OpenRb plist_path, Load,
          Print (if b then removed_line else already_line),
          OpenWb plist_path, Dump v', Print success_line]\<rparr>)"
proof (cases w rule: run_cases)
  case not_found
  then show ?thesis using that(1) run_not_found by blast
next
  case dir
  then show ?thesis using that(2) [of IsADirectoryError] run_dir [of w] by simp
next
  case (unreadable wr c)
  then show ?thesis using that(2) [of PermissionError] run_unreadable [of w wr c] by simp
next
  case (unparsable wr c)
  have "(case c of Partial v \<Rightarrow> ExpatError | _ \<Rightarrow> InvalidFileException) = InvalidFileException
      \<or> (case c of Partial v \<Rightarrow> ExpatError | _ \<Rightarrow> InvalidFileException) = ExpatError"
    by (cases c) simp_all
  with unparsable show ?thesis using that(3) run_unparsable [of w wr c] by blast
next
  case (inspect_error wr f v e)
  then show ?thesis using that(4) run_inspect_error [of w wr f v e] by blast
next
  case (unwritable f v b v')
  then show ?thesis using that(5) run_unwritable [of w f v b v'] by blast
next
  case (dump_error f v b v' e)
  then show ?thesis using that(6) run_dump_error [of w f v b v' e] by blast
next
  case (success f v b v')
  then show ?thesis using that(7) run_success [of w f v b v'] by blast
qed




section \<open>The claims\<close>







text \<open>
  Claim C4. If nothing exists at the script's path, the run returns \<open>False\<close> after the
  existence test alone: it opens, reads and parses nothing, prints the not-found line,
  changes no file and creates none at the path. Whatever the text of an exception is,
  the not-found line differs from the line the handler prints for a parse error. (A
  directory at the path exists for \<open>os.path.exists\<close>; that run fails in \<open>open\<close> and
  is reported by the handler.)
\<close>

theorem missing_file_fails_fast:
  assumes "files w plist_path = None"
  shows "fst (update_info_plist w) = Inr False
    \<and> events_of w = [Exists plist_path, Print not_found_line]
    \<and> files (snd (update_info_plist w)) = files w
    \<and> files (snd (update_info_plist w)) plist_path = None
    \<and> (\<forall>e str. render str not_found_line \<noteq> render str (error_line e))"
proof -
  have run: "update_info_plist w =
      (Inr False, w\<lparr>trace := trace w @ [Exists plist_path, Print not_found_line]\<rparr>)"
    using assms by (rule run_not_found)
  have ev: "events_of w = [Exists plist_path, Print not_found_line]"
    by (rule events_ofI) (simp add: run)
  have "render str not_found_line \<noteq> render str (error_line e)" for e str
    by (simp add: render_def not_found_line_def error_line_def)
  then show ?thesis
    by (simp add: run ev assms)
qed

text \<open>Witness for C4: the empty file system.\<close>

theorem missing_file_fails_fast_witness:
  "files w_missing plist_path = None
   \<and> fst (update_info_plist w_missing) = Inr False
   \<and> events_of w_missing = [Exists plist_path, Print not_found_line]
   \<and> files (snd (update_info_plist w_missing)) plist_path = None"
proof -
  have h: "files w_missing plist_path = None"
    by (simp add: w_missing_def)
  show ?thesis using h missing_file_fails_fast [OF h] by simp
qed



text \<open>
  Claim C6, as stated, fails. The file is opened for writing, which truncates it, before
  the document is serialized. On an XML property list that holds the target key and an
  integer of \<open>2^64\<close>, the parser succeeds, the writer raises \<open>OverflowError\<close>, the run
  returns \<open>False\<close>, and the file is left with the beginning of the output instead of
  its former content.
\<close>

theorem failed_dump_clobbers_file:
  "files w_overflow plist_path
     = Some (File True True (Plist FMT_XML (PDict [(KEY, PDict []), (''n'', PInt (2 ^ 64))])))
   \<and> fst (update_info_plist w_overflow) = Inr False
   \<and> files (snd (update_info_plist w_overflow)) plist_path
     = Some (File True True (Partial (PDict [(''n'', PInt (2 ^ 64))])))
   \<and> files (snd (update_info_plist w_overflow)) plist_path \<noteq> files w_overflow plist_path"
  by (simp add: example_defs script_defs io_defs dict_has_def dict_del_def KEY_def
      control_char_def)

text \<open>
  Claim C6, amended. A run that returns \<open>False\<close> without having started to serialize
  (nothing at the path, a failure to open or read, a parse error, an error of the
  membership test or of the deletion, a file that cannot be opened for writing) leaves
  every file as it was. A run that returns \<open>False\<close> after it started to serialize a
  document leaves at the path the partial output for that document, and every other
  file as it was.
\<close>

theorem failure_leaves_files_unless_dumping:
  assumes "fst (update_info_plist w) = Inr False"
  shows "((\<forall>v. Dump v \<notin> set (events_of w)) \<longrightarrow> files (snd (update_info_plist w)) = files w)
    \<and> (\<forall>v. Dump v \<in> set (events_of w) \<longrightarrow>
          files (snd (update_info_plist w)) = (files w)(plist_path \<mapsto> File True True (Partial v)))"
proof (cases w rule: run_result_cases)
  case not_found
  have "events_of w = [Exists plist_path, Print not_found_line]"
    by (rule events_ofI) (simp add: not_found(2))
  then show ?thesis by (simp add: not_found(2))
next
  case (read_error e)
  have "events_of w = [Exists plist_path, OpenRb plist_path, Print (error_line e)]"
    by (rule events_ofI) (simp add: read_error(2))
  then show ?thesis by (simp add: read_error(2))
next
  case (parse_error wr c e)
  have "events_of w = [Exists plist_path, OpenRb plist_path, Load, Print (error_line e)]"
    by (rule events_ofI) (simp add: parse_error(4))
  then show ?thesis by (simp add: parse_error(4))
next
  case (inspect_error wr f v e)
  have "events_of w = [Exists plist_path, OpenRb plist_path, Load, Print (error_line e)]"
    by (rule events_ofI) (simp add: inspect_error(2))
  then show ?thesis by (simp add: inspect_error(2))
next
  case (unwritable f v b)
  have "events_of w = [Exists plist_path, OpenRb plist_path, Load,
          Print (if b then removed_line else already_line),
          OpenWb plist_path, Print (error_line PermissionError)]"
    by (rule events_ofI) (simp add: unwritable(2))
  then show ?thesis by (simp add: unwritable(2))
next
  case (dump_error f v b v' e)
  have "events_of w = [Exists plist_path, OpenRb plist_path, Load,
          Print (if b then removed_line else already_line),
          OpenWb plist_path, Dump v', Print (error_line e)]"
    by (rule events_ofI) (simp add: dump_error(5))
  then show ?thesis by (auto simp add: dump_error(5))
next
  case (success f v b v')
  with assms show ?thesis by simp
qed

text \<open>Witness for the amended C6: a file of plain text, and the document with the
  integer of \<open>2^64\<close>.\<close>

theorem failure_leaves_files_unless_dumping_witness:
  "fst (update_info_plist w_garbage) = Inr False
   \<and> (\<forall>v. Dump v \<notin> set (events_of w_garbage))
   \<and> files (snd (update_info_plist w_garbage)) = files w_garbage
   \<and> fst (update_info_plist w_overflow) = Inr False
   \<and> Dump (PDict [(''n'', PInt (2 ^ 64))]) \<in> set (events_of w_overflow)
   \<and> files (snd (update_info_plist w_overflow))
       = (files w_overflow)(plist_path \<mapsto> File True True (Partial (PDict [(''n'', PInt (2 ^ 64))])))"
proof -
  have h1: "fst (update_info_plist w_garbage) = Inr False"
    by (simp add: example_defs script_defs io_defs)
  have e1: "events_of w_garbage =
       [Exists plist_path, OpenRb plist_path, Load, Print (error_line InvalidFileException)]"
    by (simp add: events_of_def example_defs script_defs io_defs)
  have h2: "fst (update_info_plist w_overflow) = Inr False"
    by (simp add: example_defs script_defs io_defs dict_has_def dict_del_def KEY_def
        control_char_def)
  have e2: "Dump (PDict [(''n'', PInt (2 ^ 64))]) \<in> set (events_of w_overflow)"
    by (simp add: events_of_def example_defs script_defs io_defs dict_has_def dict_del_def
        KEY_def control_char_def)
  show ?thesis using h1 h2 e2 failure_leaves_files_unless_dumping [OF h1] failure_leaves_files_unless_dumping [OF h2] by (simp add: e1)
qed




text \<open>
  Claim C8. Every run that returns \<open>True\<close> has opened the file at the script's path for
  writing and serialized a document into it, and the file then holds that document; the
  write does not depend on whether the key was found.
\<close>

theorem success_always_rewrites:
  assumes "fst (update_info_plist w) = Inr True"
  shows "\<exists>v. OpenWb plist_path \<in> set (events_of w) \<and> Dump v \<in> set (events_of w)
     \<and> files (snd (update_info_plist w)) plist_path = Some (File True True (Plist FMT_XML v))"
proof (cases w rule: run_result_cases)
  case (success f v b v')
  then show ?thesis by (simp add: events_of_def)
qed (use assms in simp_all)

text \<open>Witness for C8: a document without the target key is rewritten all the same.\<close>

theorem success_always_rewrites_witness:
  "fst (update_info_plist w_clean) = Inr True
   \<and> Print already_line \<in> set (events_of w_clean)
   \<and> (\<exists>v. OpenWb plist_path \<in> set (events_of w_clean) \<and> Dump v \<in> set (events_of w_clean)
     \<and> files (snd (update_info_plist w_clean)) plist_path = Some (File True True (Plist FMT_XML v)))"
proof -
  have h: "fst (update_info_plist w_clean) = Inr True"
    by (simp add: example_defs script_defs io_defs dict_has_def KEY_def control_char_def)
  have a: "Print already_line \<in> set (events_of w_clean)"
    by (simp add: events_of_def example_defs script_defs io_defs dict_has_def KEY_def
        control_char_def)
  show ?thesis using h a success_always_rewrites [OF h] by simp
qed






end
